theory Spec2Isabelle
  imports Complex_Main
begin

section \<open>The PLY model component of SceneComponents.tsx\<close>

text \<open>
  The component \<^verbatim>\<open>PlyModel\<close> (src/components/SceneComponents.tsx, lines 96 to 168)
  receives a loaded geometry, runs one preprocessing effect on it (auto-fit scale,
  recentering, vertex normals) inside a \<^verbatim>\<open>try\<close> block whose \<^verbatim>\<open>catch\<close> is empty, and
  renders it as points or as a mesh. The rotation per frame (lines 138 to 142) and the
  constant parameters of the two materials play no part in what follows and are left
  out.

  Numbers. Vertex coordinates are finite and are modelled as exact reals: rounding is
  not part of the model. The numbers the component computes itself (the auto-fit scale,
  the scale and the point size handed to the renderer) are \<open>jsnum\<close>s: a finite real or
  one of the three non-finite values of a JavaScript number. A division by zero and an
  overflow beyond the range of a double are visible as \<open>PosInfinity\<close>, \<open>NegInfinity\<close>
  or \<open>NaN\<close>.

  Input. The geometry comes from the PLY loader alone (line 97). The loader is outside
  the repository; two facts about what it hands over are stated as predicates below
  and assumed where a claim depends on them: an index is set only when the file has a
  face, and the coordinates are stored as 32-bit floats.
\<close>

subsection \<open>JavaScript numbers\<close>

datatype jsnum = Fin real | PosInfinity | NegInfinity | NaN

text \<open>
  The number an arithmetic operation returns when its exact result is \<open>x\<close>: a result
  that rounds beyond the largest double, \<open>2 ^ 1024 - 2 ^ 971\<close>, is an infinity (from
  \<open>2 ^ 1024 - 2 ^ 970\<close> on, in round to nearest). The rounding of a result in range is
  not modelled.
\<close>

definition overflow_bound :: real where
  "overflow_bound = 2 ^ 1024 - 2 ^ 970"

definition js_number :: "real \<Rightarrow> jsnum" where
  "js_number x =
     (if overflow_bound \<le> x then PosInfinity
      else if x \<le> - overflow_bound then NegInfinity
      else Fin x)"

text \<open>\<^verbatim>\<open>x / y\<close> on numbers. Signed zeros are not distinguished.\<close>

fun js_div :: "jsnum \<Rightarrow> jsnum \<Rightarrow> jsnum" where
  "js_div NaN _ = NaN"
| "js_div _ NaN = NaN"
| "js_div (Fin x) (Fin y) =
     (if y = 0 then (if x = 0 then NaN else if 0 < x then PosInfinity else NegInfinity)
      else js_number (x / y))"
| "js_div (Fin x) PosInfinity = Fin 0"
| "js_div (Fin x) NegInfinity = Fin 0"
| "js_div PosInfinity (Fin y) = (if 0 \<le> y then PosInfinity else NegInfinity)"
| "js_div NegInfinity (Fin y) = (if 0 \<le> y then NegInfinity else PosInfinity)"
| "js_div _ _ = NaN"

text \<open>\<^verbatim>\<open>x * y\<close> on numbers.\<close>

fun js_mul :: "jsnum \<Rightarrow> jsnum \<Rightarrow> jsnum" where
  "js_mul NaN _ = NaN"
| "js_mul _ NaN = NaN"
| "js_mul (Fin x) (Fin y) = js_number (x * y)"
| "js_mul (Fin x) PosInfinity =
     (if x = 0 then NaN else if 0 < x then PosInfinity else NegInfinity)"
| "js_mul (Fin x) NegInfinity =
     (if x = 0 then NaN else if 0 < x then NegInfinity else PosInfinity)"
| "js_mul PosInfinity (Fin y) =
     (if y = 0 then NaN else if 0 < y then PosInfinity else NegInfinity)"
| "js_mul NegInfinity (Fin y) =
     (if y = 0 then NaN else if 0 < y then NegInfinity else PosInfinity)"
| "js_mul PosInfinity PosInfinity = PosInfinity"
| "js_mul NegInfinity NegInfinity = PosInfinity"
| "js_mul PosInfinity NegInfinity = NegInfinity"
| "js_mul NegInfinity PosInfinity = NegInfinity"


subsection \<open>Geometry\<close>

type_synonym vec3 = "real \<times> real \<times> real"

text \<open>
  The attributes of the loaded \<^verbatim>\<open>BufferGeometry\<close> that the component reads:
  \<^verbatim>\<open>attributes.position\<close>, \<^verbatim>\<open>attributes.color\<close>, \<^verbatim>\<open>index\<close> and \<^verbatim>\<open>attributes.normal\<close>.
  The last three may be absent; the positions are always there, as in the data model
  of the specification. The index is a sequence of triangles, as in that data model.
\<close>

record buffer_geometry =
  position :: "vec3 list"
  color :: "vec3 list option"
  index :: "(nat \<times> nat \<times> nat) list option"
  normal :: "vec3 list option"





definition vsub :: "vec3 \<Rightarrow> vec3 \<Rightarrow> vec3" where
  "vsub p q = (case p of (px, py, pz) \<Rightarrow> case q of (qx, qy, qz) \<Rightarrow> (px - qx, py - qy, pz - qz))"

definition vadd :: "vec3 \<Rightarrow> vec3 \<Rightarrow> vec3" where
  "vadd p q = (case p of (px, py, pz) \<Rightarrow> case q of (qx, qy, qz) \<Rightarrow> (px + qx, py + qy, pz + qz))"

definition vmin :: "vec3 \<Rightarrow> vec3 \<Rightarrow> vec3" where
  "vmin p q = (case p of (px, py, pz) \<Rightarrow> case q of (qx, qy, qz) \<Rightarrow> (min px qx, min py qy, min pz qz))"

definition vmax :: "vec3 \<Rightarrow> vec3 \<Rightarrow> vec3" where
  "vmax p q = (case p of (px, py, pz) \<Rightarrow> case q of (qx, qy, qz) \<Rightarrow> (max px qx, max py qy, max pz qz))"

definition vscale :: "real \<Rightarrow> vec3 \<Rightarrow> vec3" where
  "vscale k p = (case p of (px, py, pz) \<Rightarrow> (k * px, k * py, k * pz))"

definition cross :: "vec3 \<Rightarrow> vec3 \<Rightarrow> vec3" where
  "cross p q = (case p of (px, py, pz) \<Rightarrow> case q of (qx, qy, qz) \<Rightarrow>
     (py * qz - pz * qy, pz * qx - px * qz, px * qy - py * qx))"

subsection \<open>The rendering engine's operations\<close>

text \<open>
  Modelled from the spec: the bounding volume of section 3 and 4.1 (the engine's
  \<^verbatim>\<open>Box3\<close>, whose code is not part of the repository). A box is the component-wise
  minimum and maximum of the positions. A buffer with no vertex has the empty box.
\<close>

datatype box3 = EmptyBox | Box vec3 vec3

fun expandByPoint :: "box3 \<Rightarrow> vec3 \<Rightarrow> box3" where
  "expandByPoint EmptyBox p = Box p p"
| "expandByPoint (Box lo hi) p = Box (vmin lo p) (vmax hi p)"

definition setFromPoints :: "vec3 list \<Rightarrow> box3" where
  "setFromPoints ps = foldl expandByPoint EmptyBox ps"

text \<open>
  Modelled from the spec: \<open>size = max - min\<close> (section 3); the empty buffer has zero
  extent (sections 4.2 and 8).
\<close>

fun getSize :: "box3 \<Rightarrow> vec3" where
  "getSize EmptyBox = (0, 0, 0)"
| "getSize (Box lo hi) = vsub hi lo"

text \<open>
  Modelled from the spec: \<open>center = (min + max) / 2\<close> (section 3). For the empty box the
  spec leaves the centre open; the model takes the origin.
\<close>

fun getCenter :: "box3 \<Rightarrow> vec3" where
  "getCenter EmptyBox = (0, 0, 0)"
| "getCenter (Box lo hi) = vscale (1 / 2) (vadd lo hi)"

text \<open>
  The engine's normalization of a vector: divided by its length, and left as it is when
  the length is zero.
\<close>

definition normalize :: "vec3 \<Rightarrow> vec3" where
  "normalize v = (case v of (x, y, z) \<Rightarrow>
     (let l = sqrt (x * x + y * y + z * z) in if l = 0 then v else vscale (1 / l) v))"

text \<open>
  Modelled from the spec: strategy (a) of section 4.3, the bulk centering operation
  \<^verbatim>\<open>geometry.center()\<close> of the engine: every position is shifted by minus the centre of
  the bounding volume.
\<close>

definition center_positions :: "vec3 list \<Rightarrow> vec3 list" where
  "center_positions ps = map (\<lambda>p. vsub p (getCenter (setFromPoints ps))) ps"

text \<open>
  The engine carries the shift out as a general transformation of the geometry, and
  such a transformation also rewrites the normal attribute, when there is one: every
  normal goes through the normal matrix of the transformation, which for a shift is the
  identity, and is then normalized. This is not in the specification; it is what the
  call of line 117 does to a loaded file that has normals.
\<close>

definition center_bulk :: "buffer_geometry \<Rightarrow> buffer_geometry" where
  "center_bulk g =
     g\<lparr>position := center_positions (position g),
       normal := map_option (map normalize) (normal g)\<rparr>"

text \<open>
  Modelled from the spec: the normal synthesizer of section 4.5, the engine's
  \<^verbatim>\<open>computeVertexNormals\<close>: the face normal of every triangle is added to the normal
  of each of its three vertices, and every sum is normalized. A triangle that names a
  vertex outside the buffer (excluded by the invariant of section 3) adds nothing.
\<close>

definition faceNormal :: "vec3 list \<Rightarrow> nat \<times> nat \<times> nat \<Rightarrow> vec3" where
  "faceNormal ps t = (case t of (a, b, c) \<Rightarrow>
     cross (vsub (ps ! c) (ps ! b)) (vsub (ps ! a) (ps ! b)))"

definition addFace :: "vec3 list \<Rightarrow> vec3 list \<Rightarrow> nat \<times> nat \<times> nat \<Rightarrow> vec3 list" where
  "addFace ps ns t = (case t of (a, b, c) \<Rightarrow>
     if a < length ps \<and> b < length ps \<and> c < length ps then
       (let n = faceNormal ps t;
            ns1 = ns[a := vadd (ns ! a) n];
            ns2 = ns1[b := vadd (ns1 ! b) n]
        in ns2[c := vadd (ns2 ! c) n])
     else ns)"

definition vertexNormals :: "vec3 list \<Rightarrow> (nat \<times> nat \<times> nat) list \<Rightarrow> vec3 list" where
  "vertexNormals ps ts =
     map normalize (foldl (addFace ps) (replicate (length ps) (0, 0, 0)) ts)"

text \<open>
  The calls into the engine that the effect makes, and which of them raise. The engine
  is outside the repository: whether a call raises is a parameter of the model. A call
  that raises leaves the geometry as it found it. \<open>has_center\<close> says whether the
  geometry object offers \<^verbatim>\<open>center\<close> (the test of line 116).
\<close>

datatype engine_call = ComputeBoundingBox | GetSize | Center | GetCenter | ComputeVertexNormals

datatype exn = Exception engine_call

record engine =
  has_center :: bool
  raises :: "engine_call \<Rightarrow> bool"

definition computeBoundingBox :: "engine \<Rightarrow> buffer_geometry \<Rightarrow> exn + box3" where
  "computeBoundingBox e g =
     (if raises e ComputeBoundingBox then Inl (Exception ComputeBoundingBox)
      else Inr (setFromPoints (position g)))"

definition box_getSize :: "engine \<Rightarrow> box3 \<Rightarrow> exn + vec3" where
  "box_getSize e box =
     (if raises e GetSize then Inl (Exception GetSize) else Inr (getSize box))"

definition box_getCenter :: "engine \<Rightarrow> box3 \<Rightarrow> exn + vec3" where
  "box_getCenter e box =
     (if raises e GetCenter then Inl (Exception GetCenter) else Inr (getCenter box))"

definition center :: "engine \<Rightarrow> buffer_geometry \<Rightarrow> exn + buffer_geometry" where
  "center e g =
     (if raises e Center then Inl (Exception Center) else Inr (center_bulk g))"

definition computeVertexNormals :: "engine \<Rightarrow> buffer_geometry \<Rightarrow> exn + buffer_geometry" where
  "computeVertexNormals e g =
     (if raises e ComputeVertexNormals then Inl (Exception ComputeVertexNormals)
      else Inr (g\<lparr>normal := Some (vertexNormals (position g)
                   (case index g of None \<Rightarrow> [] | Some ts \<Rightarrow> ts))\<rparr>))"

subsection \<open>The preprocessing effect (lines 102 to 136)\<close>

text \<open>Line 110: \<^verbatim>\<open>Math.max(size.x, size.y, size.z)\<close>.\<close>

definition maxDim :: "vec3 \<Rightarrow> real" where
  "maxDim sz = (case sz of (x, y, z) \<Rightarrow> max x (max y z))"

text \<open>Line 111: the target size on screen.\<close>

definition desired :: real where
  "desired = 2"

text \<open>Lines 110 to 112: \<^verbatim>\<open>auto = maxDim > 0 ? desired / maxDim : 1\<close>, from the size.\<close>

definition auto_fit :: "vec3 \<Rightarrow> jsnum" where
  "auto_fit sz =
     (let m = maxDim sz
      in if m > 0 then js_div (Fin desired) (Fin m) else Fin 1)"

text \<open>
  The accessors of the position attribute. The loop below calls them with \<open>i\<close> below
  the vertex count only.
\<close>

definition getX :: "vec3 list \<Rightarrow> nat \<Rightarrow> real" where
  "getX pos i = (case pos ! i of (x, y, z) \<Rightarrow> x)"

definition getY :: "vec3 list \<Rightarrow> nat \<Rightarrow> real" where
  "getY pos i = (case pos ! i of (x, y, z) \<Rightarrow> y)"

definition getZ :: "vec3 list \<Rightarrow> nat \<Rightarrow> real" where
  "getZ pos i = (case pos ! i of (x, y, z) \<Rightarrow> z)"

definition setX :: "vec3 list \<Rightarrow> nat \<Rightarrow> real \<Rightarrow> vec3 list" where
  "setX pos i v = (case pos ! i of (x, y, z) \<Rightarrow> pos[i := (v, y, z)])"

definition setY :: "vec3 list \<Rightarrow> nat \<Rightarrow> real \<Rightarrow> vec3 list" where
  "setY pos i v = (case pos ! i of (x, y, z) \<Rightarrow> pos[i := (x, v, z)])"

definition setZ :: "vec3 list \<Rightarrow> nat \<Rightarrow> real \<Rightarrow> vec3 list" where
  "setZ pos i v = (case pos ! i of (x, y, z) \<Rightarrow> pos[i := (x, y, v)])"

text \<open>
  Lines 121 to 125, strategy (b): the loop over the vertices, from \<open>i\<close> on. Each pass
  rewrites the three coordinates of vertex \<open>i\<close> in turn.
\<close>

function recenter_loop :: "vec3 \<Rightarrow> nat \<Rightarrow> vec3 list \<Rightarrow> vec3 list" where
  "recenter_loop c i pos =
     (if i < length pos then
        (case c of (cx, cy, cz) \<Rightarrow>
           recenter_loop c (i + 1)
             (setZ (setY (setX pos i (getX pos i - cx)) i
                      (getY (setX pos i (getX pos i - cx)) i - cy)) i
                (getZ (setY (setX pos i (getX pos i - cx)) i
                         (getY (setX pos i (getX pos i - cx)) i - cy)) i - cz)))
      else pos)"
  by pat_completeness auto
termination
  by (relation "measure (\<lambda>(c, i, pos). length pos - i)")
     (auto simp: setX_def setY_def setZ_def split: prod.splits)

declare recenter_loop.simps [simp del]

text \<open>
  Lines 116 to 127: the bulk operation when the geometry offers it, the loop with the
  centre of the box measured at line 108 otherwise.
\<close>

definition recenter :: "engine \<Rightarrow> box3 \<Rightarrow> buffer_geometry \<Rightarrow> exn + buffer_geometry" where
  "recenter e box g =
     (if has_center e then center e g
      else
        (case box_getCenter e box of
           Inl x \<Rightarrow> Inl x
         | Inr c \<Rightarrow> Inr (g\<lparr>position := recenter_loop c 0 (position g)\<rparr>)))"

text \<open>Lines 130 to 132: normals are computed when there are none and there is an index.\<close>

definition synthesize :: "engine \<Rightarrow> buffer_geometry \<Rightarrow> exn + buffer_geometry" where
  "synthesize e g =
     (if normal g = None \<and> index g \<noteq> None then computeVertexNormals e g else Inr g)"

text \<open>
  The body of the \<^verbatim>\<open>try\<close> block, lines 105 to 132, on the current value \<open>a\<close> of the
  state \<^verbatim>\<open>autoScale\<close> and the geometry \<open>g\<close>. It returns the scale and the geometry as
  they are when the block is left, and the exception that ended it, if one did.
  \<^verbatim>\<open>setAutoScale(auto)\<close> (line 113) comes before the recentering.
\<close>

definition try_block :: "engine \<Rightarrow> jsnum \<Rightarrow> buffer_geometry \<Rightarrow> (jsnum \<times> buffer_geometry) \<times> exn option" where
  "try_block e a g =
     (case computeBoundingBox e g of
        Inl x \<Rightarrow> ((a, g), Some x)
      | Inr box \<Rightarrow>
          (case box_getSize e box of
             Inl x \<Rightarrow> ((a, g), Some x)
           | Inr sz \<Rightarrow>
               (let auto = auto_fit sz in
                case recenter e box g of
                  Inl x \<Rightarrow> ((auto, g), Some x)
                | Inr g1 \<Rightarrow>
                    (case synthesize e g1 of
                       Inl x \<Rightarrow> ((auto, g1), Some x)
                     | Inr g2 \<Rightarrow> ((auto, g2), None)))))"

text \<open>
  The state of the component: \<^verbatim>\<open>autoScale\<close> (line 99, initially 1) and the geometry the
  loader handed over (line 97), absent while there is none.
\<close>

record ply_state =
  autoScale :: jsnum
  geometry :: "buffer_geometry option"

definition initial_state :: "buffer_geometry option \<Rightarrow> ply_state" where
  "initial_state g = \<lparr>autoScale = Fin 1, geometry = g\<rparr>"

text \<open>
  The effect, lines 102 to 136: nothing without a geometry (line 103); otherwise the
  \<^verbatim>\<open>try\<close> block, whose exception the empty \<^verbatim>\<open>catch\<close> of lines 133 to 135 drops.
\<close>

definition effect :: "engine \<Rightarrow> ply_state \<Rightarrow> ply_state" where
  "effect e st =
     (case geometry st of
        None \<Rightarrow> st
      | Some g \<Rightarrow>
          (case try_block e (autoScale st) g of
             ((a, g'), _) \<Rightarrow> \<lparr>autoScale = a, geometry = Some g'\<rparr>))"

subsection \<open>Rendering (lines 144 to 167)\<close>

text \<open>
  What the component returns: nothing, a \<^verbatim>\<open>points\<close> element with its
  \<^verbatim>\<open>pointsMaterial\<close>, or a \<^verbatim>\<open>mesh\<close> element with its \<^verbatim>\<open>meshStandardMaterial\<close>.
\<close>

datatype element =
    Null
  | Points buffer_geometry "jsnum \<times> jsnum \<times> jsnum" jsnum bool
  | Mesh buffer_geometry "jsnum \<times> jsnum \<times> jsnum" bool "string option"

definition hasVertexColors :: "buffer_geometry \<Rightarrow> bool" where
  "hasVertexColors g = (color g \<noteq> None)"

text \<open>\<open>scale\<close> is the property \<^verbatim>\<open>scale\<close> of the component (1 when not given).\<close>

definition render :: "jsnum \<Rightarrow> ply_state \<Rightarrow> element" where
  "render scale st =
     (case geometry st of
        None \<Rightarrow> Null
      | Some g \<Rightarrow>
          (let k = js_mul (autoScale st) scale in
           if index g = None then
             Points g (k, k, k) (js_mul (Fin 0.02) scale) (hasVertexColors g)
           else
             Mesh g (k, k, k) (hasVertexColors g)
               (if hasVertexColors g then None else Some ''#bdbdbd'')))"

text \<open>The render mode of the specification, read off the element that is rendered.\<close>

datatype RenderMode = POINT_CLOUD | SURFACE

fun renderMode :: "element \<Rightarrow> RenderMode option" where
  "renderMode Null = None"
| "renderMode (Points _ _ _ _) = Some POINT_CLOUD"
| "renderMode (Mesh _ _ _ _) = Some SURFACE"

fun element_scale :: "element \<Rightarrow> (jsnum \<times> jsnum \<times> jsnum) option" where
  "element_scale Null = None"
| "element_scale (Points _ s _ _) = Some s"
| "element_scale (Mesh _ s _ _) = Some s"

fun point_size :: "element \<Rightarrow> jsnum option" where
  "point_size (Points _ _ z _) = Some z"
| "point_size _ = None"

fun vertexColors :: "element \<Rightarrow> bool option" where
  "vertexColors Null = None"
| "vertexColors (Points _ _ _ c) = Some c"
| "vertexColors (Mesh _ _ c _) = Some c"

subsection \<open>Auxiliary notions for the proofs\<close>

text \<open>A box moved by \<open>- c\<close>.\<close>

fun shift_box :: "vec3 \<Rightarrow> box3 \<Rightarrow> box3" where
  "shift_box c EmptyBox = EmptyBox"
| "shift_box c (Box lo hi) = Box (vsub lo c) (vsub hi c)"



text \<open>The buffer after the recentering step, by the strategy the engine offers.\<close>

definition recentered :: "engine \<Rightarrow> buffer_geometry \<Rightarrow> buffer_geometry" where
  "recentered e g =
     (if has_center e then center_bulk g
      else g\<lparr>position := center_positions (position g)\<rparr>)"





text \<open>The auto-fit scale of a buffer: line 112 on the size of its bounding box.\<close>

definition fitted :: "buffer_geometry \<Rightarrow> jsnum" where
  "fitted g = auto_fit (getSize (setFromPoints (position g)))"

subsection \<open>Engines and buffers used as examples\<close>

text \<open>The engine as it normally is: \<^verbatim>\<open>center\<close> is offered and no call raises.\<close>

definition no_raise :: engine where
  "no_raise = \<lparr>has_center = True, raises = (\<lambda>c. False)\<rparr>"

text \<open>A geometry object without \<^verbatim>\<open>center\<close>: the loop of lines 119 to 126 runs.\<close>

definition no_center :: engine where
  "no_center = \<lparr>has_center = False, raises = (\<lambda>c. False)\<rparr>"

definition center_raise :: engine where
  "center_raise = \<lparr>has_center = True, raises = (\<lambda>c. c = Center)\<rparr>"

definition normals_raise :: engine where
  "normals_raise = \<lparr>has_center = True, raises = (\<lambda>c. c = ComputeVertexNormals)\<rparr>"

text \<open>Two vertices four units apart, without index.\<close>

definition segment :: buffer_geometry where
  "segment = \<lparr>position = [(0, 0, 0), (4, 0, 0)], color = None, index = None, normal = None\<rparr>"


text \<open>Two vertices with normals of length 2, as a file may give them.\<close>

definition long_normals :: buffer_geometry where
  "long_normals = \<lparr>position = [(0, 0, 0), (4, 0, 0)], color = None, index = None,
     normal = Some [(0, 0, 2), (0, 0, 2)]\<rparr>"

text \<open>Two vertices and one colour: the colour attribute is shorter than the positions.\<close>

definition short_colors :: buffer_geometry where
  "short_colors = \<lparr>position = [(0, 0, 0), (4, 0, 0)], color = Some [(1, 0, 0)],
     index = None, normal = None\<rparr>"


text \<open>One triangle in the plane \<open>z = 0\<close>, without normals.\<close>

definition triangle :: buffer_geometry where
  "triangle = \<lparr>position = [(0, 0, 0), (1, 0, 0), (0, 1, 0)], color = None,
     index = Some [(0, 1, 2)], normal = None\<rparr>"

section \<open>Properties\<close>

subsection \<open>The loop is a map\<close>

lemma loop_step:
  assumes "i < length pos"
  shows "setZ (setY (setX pos i (getX pos i - cx)) i
                 (getY (setX pos i (getX pos i - cx)) i - cy)) i
           (getZ (setY (setX pos i (getX pos i - cx)) i
                    (getY (setX pos i (getX pos i - cx)) i - cy)) i - cz)
         = pos[i := vsub (pos ! i) (cx, cy, cz)]"
  using assms
  by (cases "pos ! i") (simp add: setX_def setY_def setZ_def getX_def getY_def getZ_def vsub_def)

text \<open>
  After the passes for the vertices below \<open>i\<close>, the loop leaves those as they are and
  shifts the rest.
\<close>

lemma recenter_loop_from:
  "i \<le> length pos \<Longrightarrow>
   recenter_loop c i pos = take i pos @ map (\<lambda>p. vsub p c) (drop i pos)"
proof (induction c i pos rule: recenter_loop.induct)
  case (1 c i pos)
  obtain cx cy cz where c: "c = (cx, cy, cz)" by (cases c) auto
  show ?case
  proof (cases "i < length pos")
    case True
    let ?pos' = "pos[i := vsub (pos ! i) c]"
    have step: "recenter_loop c i pos = recenter_loop c (i + 1) ?pos'"
      using True by (subst recenter_loop.simps) (simp add: c loop_step)
    have "recenter_loop c (i + 1) ?pos' =
          take (i + 1) ?pos' @ map (\<lambda>p. vsub p c) (drop (i + 1) ?pos')"
      using "1.IH" [of cx "(cy, cz)" cy cz] True
      by (simp add: c loop_step)
    also have "take (i + 1) ?pos' = take i pos @ [vsub (pos ! i) c]"
      using True by (simp add: take_Suc_conv_app_nth)
    also have "drop (i + 1) ?pos' = drop (i + 1) pos"
      by simp
    finally show ?thesis
      using True step by (simp add: Cons_nth_drop_Suc [symmetric])
  next
    case False
    with "1.prems" have "i = length pos" by simp
    then show ?thesis by (subst recenter_loop.simps) simp
  qed
qed

lemma recenter_loop_map: "recenter_loop c 0 pos = map (\<lambda>p. vsub p c) pos"
  using recenter_loop_from [of 0 pos c] by simp

lemma recenter_eq:
  "recenter e (setFromPoints (position g)) g =
     (if has_center e \<and> raises e Center then Inl (Exception Center)
      else if \<not> has_center e \<and> raises e GetCenter then Inl (Exception GetCenter)
      else Inr (recentered e g))"
  by (simp add: recenter_def center_def box_getCenter_def recentered_def center_positions_def
      recenter_loop_map)

subsection \<open>Bounding boxes\<close>

lemma vmin_vsub: "vmin (vsub p c) (vsub q c) = vsub (vmin p q) c"
  by (cases p; cases q; cases c) (simp add: vmin_def vsub_def min_def)

lemma vmax_vsub: "vmax (vsub p c) (vsub q c) = vsub (vmax p q) c"
  by (cases p; cases q; cases c) (simp add: vmax_def vsub_def max_def)

lemma vsub_zero: "vsub p (0, 0, 0) = p"
  by (cases p) (simp add: vsub_def)

lemma expandByPoint_shift:
  "expandByPoint (shift_box c b) (vsub p c) = shift_box c (expandByPoint b p)"
  by (cases b) (simp_all add: vmin_vsub vmax_vsub)

lemma foldl_expand_shift:
  "foldl expandByPoint (shift_box c b) (map (\<lambda>p. vsub p c) ps) =
   shift_box c (foldl expandByPoint b ps)"
  by (induction ps arbitrary: b) (simp_all add: expandByPoint_shift)

lemma setFromPoints_shift:
  "setFromPoints (map (\<lambda>p. vsub p c) ps) = shift_box c (setFromPoints ps)"
  using foldl_expand_shift [of c EmptyBox ps] by (simp add: setFromPoints_def)

lemma foldl_expand_Box: "foldl expandByPoint (Box lo hi) ps \<noteq> EmptyBox"
  by (induction ps arbitrary: lo hi) simp_all

lemma setFromPoints_Box: "ps \<noteq> [] \<Longrightarrow> setFromPoints ps \<noteq> EmptyBox"
  by (cases ps) (simp_all add: setFromPoints_def foldl_expand_Box)

lemma getCenter_shift_self:
  "getCenter (shift_box (getCenter (Box lo hi)) (Box lo hi)) = (0, 0, 0)"
  by (cases lo; cases hi) (simp add: vsub_def vadd_def vscale_def)

lemma center_after_shift:
  assumes "ps \<noteq> []"
  shows "getCenter (setFromPoints (center_positions ps)) = (0, 0, 0)"
proof -
  obtain lo hi where b: "setFromPoints ps = Box lo hi"
    using setFromPoints_Box [OF assms] by (cases "setFromPoints ps") simp_all
  show ?thesis
    unfolding center_positions_def setFromPoints_shift b by (rule getCenter_shift_self)
qed

lemma center_positions_twice: "center_positions (center_positions ps) = center_positions ps"
proof (cases "ps = []")
  case True
  then show ?thesis by (simp add: center_positions_def)
next
  case False
  have "center_positions (center_positions ps) =
        map (\<lambda>p. vsub p (0, 0, 0)) (center_positions ps)"
    unfolding center_positions_def [of "center_positions ps"] center_after_shift [OF False] ..
  then show ?thesis by (simp add: vsub_zero)
qed















subsection \<open>The range of the auto-fit scale\<close>


lemma auto_fit_cases:
  "auto_fit sz = (if 0 < maxDim sz then js_number (2 / maxDim sz) else Fin 1)"
  by (simp add: auto_fit_def desired_def Let_def)

text \<open>
  Off the grid of the 32-bit floats the quotient can overflow: an extent of
  \<open>10 ^ -320\<close>, which a double can hold, gives an infinite scale.
\<close>

lemma auto_fit_overflow: "auto_fit (1 / 10 ^ 320, 0, 0) = PosInfinity"
  by (simp add: auto_fit_cases maxDim_def js_number_def overflow_bound_def)









subsection \<open>Vertex normals\<close>

lemma length_addFace: "length (addFace ps ns t) = length ns"
  by (simp add: addFace_def Let_def split: prod.splits)

lemma length_foldl_addFace: "length (foldl (addFace ps) ns ts) = length ns"
  by (induction ts arbitrary: ns) (simp_all add: length_addFace)

lemma length_vertexNormals: "length (vertexNormals ps ts) = length ps"
  by (simp add: vertexNormals_def length_foldl_addFace)

lemma normalize_twice: "normalize (normalize v) = normalize v"
proof -
  obtain x y z where v: "v = (x, y, z)" by (cases v) auto
  define l where "l = sqrt (x * x + y * y + z * z)"
  have nv: "normalize v = (if l = 0 then v else vscale (1 / l) v)"
    by (simp add: v normalize_def Let_def l_def)
  show ?thesis
  proof (cases "l = 0")
    case True
    then show ?thesis by (simp add: nv)
  next
    case False
    have nonneg: "0 \<le> x * x + y * y + z * z" by simp
    have sq: "l * l = x * x + y * y + z * z"
      unfolding l_def using nonneg by simp
    have n: "normalize v = (x / l, y / l, z / l)"
      unfolding nv using False by (simp add: v vscale_def)
    have "(x / l) * (x / l) + (y / l) * (y / l) + (z / l) * (z / l) =
          (x * x + y * y + z * z) / (l * l)"
      by (simp add: add_divide_distrib)
    also have "\<dots> = 1" unfolding sq [symmetric] using False by simp
    finally have one: "sqrt ((x / l) * (x / l) + (y / l) * (y / l) + (z / l) * (z / l)) = 1"
      by simp
    have "normalize (x / l, y / l, z / l) =
          (if sqrt ((x / l) * (x / l) + (y / l) * (y / l) + (z / l) * (z / l)) = 0
           then (x / l, y / l, z / l)
           else vscale (1 / sqrt ((x / l) * (x / l) + (y / l) * (y / l) + (z / l) * (z / l)))
                  (x / l, y / l, z / l))"
      unfolding normalize_def Let_def prod.case ..
    also have "\<dots> = (x / l, y / l, z / l)"
      unfolding one by (simp add: vscale_def)
    finally show ?thesis
      unfolding n .
  qed
qed

lemma center_bulk_twice: "center_bulk (center_bulk g) = center_bulk g"
  by (cases "normal g")
     (simp_all add: center_bulk_def center_positions_twice normalize_twice comp_def)

lemma recentered_index: "index (recentered e g) = index g"
  by (simp add: recentered_def center_bulk_def)

lemma recentered_color: "color (recentered e g) = color g"
  by (simp add: recentered_def center_bulk_def)

lemma recentered_normal_None: "normal (recentered e g) = None \<longleftrightarrow> normal g = None"
  by (simp add: recentered_def center_bulk_def)

lemma recentered_position: "position (recentered e g) = center_positions (position g)"
  by (simp add: recentered_def center_bulk_def)

lemma recentered_no_normals:
  "normal g = None \<Longrightarrow> recentered e g = g\<lparr>position := center_positions (position g)\<rparr>"
  by (cases g) (simp add: recentered_def center_bulk_def)

lemma recentered_normal:
  "normal (recentered e g) =
     (if has_center e then map_option (map normalize) (normal g) else normal g)"
  by (simp add: recentered_def center_bulk_def)

lemma recentered_twice: "recentered e (recentered e g) = recentered e g"
  by (simp add: recentered_def center_bulk_twice center_positions_twice)

lemma triangle_normals:
  "vertexNormals [(0, 0, 0), (1, 0, 0), (0, 1, 0)] [(0, 1, 2)] = [(0, 0, 1), (0, 0, 1), (0, 0, 1)]"
  by (simp add: vertexNormals_def addFace_def faceNormal_def normalize_def cross_def vsub_def
      vadd_def vscale_def Let_def numeral_3_eq_3)

subsection \<open>The try block and the effect, case by case\<close>

lemma try_block_eq:
  "try_block e a g =
     (if raises e ComputeBoundingBox then ((a, g), Some (Exception ComputeBoundingBox))
      else if raises e GetSize then ((a, g), Some (Exception GetSize))
      else if has_center e \<and> raises e Center then
        ((fitted g, g), Some (Exception Center))
      else if \<not> has_center e \<and> raises e GetCenter then
        ((fitted g, g), Some (Exception GetCenter))
      else if normal g = None \<and> index g \<noteq> None then
        (if raises e ComputeVertexNormals then
           ((fitted g, recentered e g), Some (Exception ComputeVertexNormals))
         else
           ((fitted g,
             (recentered e g)\<lparr>normal := Some (vertexNormals (position (recentered e g))
                (case index g of None \<Rightarrow> [] | Some ts \<Rightarrow> ts))\<rparr>), None))
      else ((fitted g, recentered e g), None))"
  by (simp add: try_block_def computeBoundingBox_def box_getSize_def recenter_eq synthesize_def
      computeVertexNormals_def fitted_def Let_def recentered_index recentered_normal_None)

lemma effect_eq:
  "effect e \<lparr>autoScale = a, geometry = Some g\<rparr> =
     \<lparr>autoScale = fst (fst (try_block e a g)), geometry = Some (snd (fst (try_block e a g)))\<rparr>"
  by (simp add: effect_def split: prod.splits)

lemma effect_geometry:
  "geometry st = Some g \<Longrightarrow>
   geometry (effect e st) = Some (snd (fst (try_block e (autoScale st) g)))"
  by (simp add: effect_def split: prod.splits)

lemma effect_autoScale:
  "geometry st = Some g \<Longrightarrow>
   autoScale (effect e st) = fst (fst (try_block e (autoScale st) g))"
  by (simp add: effect_def split: prod.splits)

lemma try_block_color: "color (snd (fst (try_block e a g))) = color g"
  by (simp add: try_block_eq recentered_color)

lemma try_block_index: "index (snd (fst (try_block e a g))) = index g"
  by (simp add: try_block_eq recentered_index)

lemma try_block_normal:
  assumes "snd (try_block e a g) = None"
  shows "if normal g = None \<and> index g \<noteq> None
         then \<exists>ns. normal (snd (fst (try_block e a g))) = Some ns \<and>
                length ns = length (position (snd (fst (try_block e a g))))
         else normal (snd (fst (try_block e a g))) = normal (recentered e g)"
  using assms
  by (auto simp: try_block_eq length_vertexNormals split: if_splits)

lemma try_block_without_color:
  "fst (fst (try_block e a (g\<lparr>color := c\<rparr>))) = fst (fst (try_block e a g)) \<and>
   position (snd (fst (try_block e a (g\<lparr>color := c\<rparr>)))) =
     position (snd (fst (try_block e a g)))"
  by (simp add: try_block_eq fitted_def recentered_position)

lemma render_not_Null: "geometry st = Some g \<Longrightarrow> render s st \<noteq> Null"
  by (simp add: render_def Let_def)

subsection \<open>The example buffers, evaluated\<close>

lemma segment_box: "setFromPoints [(0, 0, 0), (4, 0, 0)] = Box (0, 0, 0) (4, 0, 0)"
  by (simp add: setFromPoints_def vmin_def vmax_def)

lemma segment_centered:
  "center_positions [(0, 0, 0), (4, 0, 0)] = [(- 2, 0, 0), (2, 0, 0)]"
  by (simp add: center_positions_def segment_box vsub_def vadd_def vscale_def)

lemma fitted_segment: "fitted segment = Fin (1 / 2)"
  by (simp add: fitted_def segment_def segment_box auto_fit_cases maxDim_def vsub_def
      js_number_def overflow_bound_def)

lemma fitted_short_colors: "fitted short_colors = Fin (1 / 2)"
  by (simp add: fitted_def short_colors_def segment_box auto_fit_cases maxDim_def vsub_def
      js_number_def overflow_bound_def)

lemma recentered_segment:
  "recentered e segment = segment\<lparr>position := [(- 2, 0, 0), (2, 0, 0)]\<rparr>"
  by (simp add: recentered_def center_bulk_def segment_def segment_centered)

lemma recentered_short_colors:
  "recentered e short_colors = short_colors\<lparr>position := [(- 2, 0, 0), (2, 0, 0)]\<rparr>"
  by (simp add: recentered_def center_bulk_def short_colors_def segment_centered)

lemma triangle_box:
  "setFromPoints [(0, 0, 0), (1, 0, 0), (0, 1, 0)] = Box (0, 0, 0) (1, 1, 0)"
  by (simp add: setFromPoints_def vmin_def vmax_def)

lemma triangle_centered:
  "center_positions [(0, 0, 0), (1, 0, 0), (0, 1, 0)] =
   [(- (1 / 2), - (1 / 2), 0), (1 / 2, - (1 / 2), 0), (- (1 / 2), 1 / 2, 0)]"
  by (simp add: center_positions_def triangle_box vsub_def vadd_def vscale_def)

lemma fitted_triangle: "fitted triangle = Fin 2"
  by (simp add: fitted_def triangle_def triangle_box auto_fit_cases maxDim_def vsub_def
      js_number_def overflow_bound_def)

lemma recentered_triangle:
  "recentered e triangle =
   triangle\<lparr>position := [(- (1 / 2), - (1 / 2), 0), (1 / 2, - (1 / 2), 0), (- (1 / 2), 1 / 2, 0)]\<rparr>"
  by (simp add: recentered_def center_bulk_def triangle_def triangle_centered)

lemma center_bulk_long_normals:
  "center_bulk long_normals =
   long_normals\<lparr>position := [(- 2, 0, 0), (2, 0, 0)], normal := Some [(0, 0, 1), (0, 0, 1)]\<rparr>"
  by (simp add: center_bulk_def long_normals_def segment_centered normalize_def vscale_def)

section \<open>The claims\<close>

subsection \<open>C1: points or mesh\<close>



subsection \<open>C2: the auto-fit scale\<close>



subsection \<open>C3: an exception inside the try block\<close>

text \<open>
  C3, as the code has it. When a call of the try block raises, with exception \<open>x\<close>, the
  exception is dropped and the component still renders an element. Nothing is rolled
  back: the state is what the steps before the failing call made of it. If the bounding
  box computation or the scale derivation (the size of the box) raised, the scale and
  the buffer are as before (the scale is 1 on a first load). If the recentering raised
  (the bulk operation, or the centre of the box for the loop), the scale is already the
  auto-fit value and the buffer is as before. If the normal computation raised, the
  scale is the auto-fit value and the positions are recentered; no normals have been
  added.
\<close>

theorem exception_keeps_completed_steps:
  assumes "snd (try_block e a g) = Some x"
  shows "render s (effect e \<lparr>autoScale = a, geometry = Some g\<rparr>) \<noteq> Null \<and>
         effect e \<lparr>autoScale = a, geometry = Some g\<rparr> =
           (if x = Exception ComputeBoundingBox \<or> x = Exception GetSize then
              \<lparr>autoScale = a, geometry = Some g\<rparr>
            else if x = Exception Center \<or> x = Exception GetCenter then
              \<lparr>autoScale = fitted g, geometry = Some g\<rparr>
            else
              \<lparr>autoScale = fitted g,
               geometry = Some (g\<lparr>position :=
                 map (\<lambda>p. vsub p (getCenter (setFromPoints (position g)))) (position g)\<rparr>)\<rparr>)"
proof -
  have "render s (effect e \<lparr>autoScale = a, geometry = Some g\<rparr>) \<noteq> Null"
    by (rule render_not_Null) (simp add: effect_eq)
  moreover have "effect e \<lparr>autoScale = a, geometry = Some g\<rparr> =
           (if x = Exception ComputeBoundingBox \<or> x = Exception GetSize then
              \<lparr>autoScale = a, geometry = Some g\<rparr>
            else if x = Exception Center \<or> x = Exception GetCenter then
              \<lparr>autoScale = fitted g, geometry = Some g\<rparr>
            else
              \<lparr>autoScale = fitted g,
               geometry = Some (g\<lparr>position :=
                 map (\<lambda>p. vsub p (getCenter (setFromPoints (position g)))) (position g)\<rparr>)\<rparr>)"
    using assms
    by (auto simp: effect_eq try_block_eq recentered_no_normals center_positions_def
        split: if_splits)
  ultimately show ?thesis by simp
qed

theorem exception_keeps_completed_steps_witness:
  "snd (try_block center_raise (Fin 1) segment) = Some (Exception Center) \<and>
   effect center_raise \<lparr>autoScale = Fin 1, geometry = Some segment\<rparr> =
     \<lparr>autoScale = Fin (1 / 2), geometry = Some segment\<rparr>"
proof -
  have h: "snd (try_block center_raise (Fin 1) segment) = Some (Exception Center)"
    by (simp add: try_block_eq center_raise_def)
  show ?thesis
    using h exception_keeps_completed_steps [OF h, of "Fin 1"]
    by (simp add: fitted_segment)
qed

text \<open>
  C3 as stated fails when the normal computation raises: on a first load of \<open>triangle\<close>
  the effect ends with scale \<open>2\<close> and recentered positions, not with scale 1 and the
  buffer as loaded.
\<close>

theorem normals_exception_after_recenter:
  "snd (try_block normals_raise (Fin 1) triangle) = Some (Exception ComputeVertexNormals) \<and>
   effect normals_raise (initial_state (Some triangle)) =
     \<lparr>autoScale = Fin 2,
      geometry = Some (triangle\<lparr>position :=
        [(- (1 / 2), - (1 / 2), 0), (1 / 2, - (1 / 2), 0), (- (1 / 2), 1 / 2, 0)]\<rparr>)\<rparr> \<and>
   effect normals_raise (initial_state (Some triangle)) \<noteq> initial_state (Some triangle)"
proof -
  have n: "normal triangle = None" "index triangle \<noteq> None"
    by (simp_all add: triangle_def)
  have t: "try_block normals_raise (Fin 1) triangle =
     ((Fin 2, triangle\<lparr>position :=
        [(- (1 / 2), - (1 / 2), 0), (1 / 2, - (1 / 2), 0), (- (1 / 2), 1 / 2, 0)]\<rparr>),
      Some (Exception ComputeVertexNormals))"
    by (simp add: try_block_eq normals_raise_def n fitted_triangle recentered_triangle)
  show ?thesis
    by (simp add: initial_state_def effect_eq t)
qed

subsection \<open>C4: when normals are computed\<close>

text \<open>
  C4. The normal step of lines 130 to 132 leaves the buffer unchanged when normals are
  present or the index is absent. When normals are absent and an index is present it
  calls the engine, which (unless it raises) sets the normal attribute to one normal
  per vertex. For the whole try block, when it ends without an exception: the resulting
  buffer has one normal per vertex if the loaded one had no normals and an index;
  otherwise no normals are computed, and the normals are those the recentering step
  left (the loaded ones after the loop, the loaded ones normalized after the bulk
  operation).
\<close>

theorem normal_synthesis_gate:
  "(normal g \<noteq> None \<or> index g = None \<longrightarrow> synthesize e g = Inr g) \<and>
   (normal g = None \<and> index g \<noteq> None \<and> \<not> raises e ComputeVertexNormals \<longrightarrow>
      (\<exists>ns. synthesize e g = Inr (g\<lparr>normal := Some ns\<rparr>) \<and> length ns = length (position g))) \<and>
   (snd (try_block e a g) = None \<longrightarrow>
      (if normal g = None \<and> index g \<noteq> None
       then \<exists>ns. normal (snd (fst (try_block e a g))) = Some ns \<and>
              length ns = length (position (snd (fst (try_block e a g))))
       else normal (snd (fst (try_block e a g))) =
              (if has_center e then map_option (map normalize) (normal g) else normal g)))"
proof -
  have "normal g \<noteq> None \<or> index g = None \<longrightarrow> synthesize e g = Inr g"
    by (auto simp: synthesize_def)
  moreover have "normal g = None \<and> index g \<noteq> None \<and> \<not> raises e ComputeVertexNormals \<longrightarrow>
      (\<exists>ns. synthesize e g = Inr (g\<lparr>normal := Some ns\<rparr>) \<and> length ns = length (position g))"
    by (auto simp: synthesize_def computeVertexNormals_def length_vertexNormals)
  moreover have "snd (try_block e a g) = None \<longrightarrow>
      (if normal g = None \<and> index g \<noteq> None
       then \<exists>ns. normal (snd (fst (try_block e a g))) = Some ns \<and>
              length ns = length (position (snd (fst (try_block e a g))))
       else normal (snd (fst (try_block e a g))) =
              (if has_center e then map_option (map normalize) (normal g) else normal g))"
    using try_block_normal [of e a g] unfolding recentered_normal by blast
  ultimately show ?thesis by blast
qed

theorem normal_synthesis_gate_witness:
  "normal triangle = None \<and> index triangle \<noteq> None \<and> \<not> raises no_raise ComputeVertexNormals \<and>
   synthesize no_raise triangle =
     Inr (triangle\<lparr>normal := Some [(0, 0, 1), (0, 0, 1), (0, 0, 1)]\<rparr>) \<and>
   index short_colors = None \<and> synthesize no_raise short_colors = Inr short_colors \<and>
   snd (try_block no_raise (Fin 1) short_colors) = None \<and>
   normal (snd (fst (try_block no_raise (Fin 1) short_colors))) = None"
proof -
  have t: "synthesize no_raise triangle =
     Inr (triangle\<lparr>normal := Some [(0, 0, 1), (0, 0, 1), (0, 0, 1)]\<rparr>)"
    by (simp add: synthesize_def computeVertexNormals_def no_raise_def triangle_def
        triangle_normals [simplified])
  have s: "index short_colors = None" "normal short_colors = None"
    by (simp_all add: short_colors_def)
  have n: "snd (try_block no_raise (Fin 1) short_colors) = None"
    by (simp add: try_block_eq no_raise_def s)
  show ?thesis
    using t s n normal_synthesis_gate [of short_colors no_raise "Fin 1"]
    by (simp add: triangle_def no_raise_def)
qed

subsection \<open>C5: recentering, measured again\<close>

text \<open>
  C5. For every buffer with at least one vertex, when the recentering of lines 116 to
  127 succeeds (by either strategy), the bounding box measured on the recentered
  positions has its centre at the origin, and recentering the result once more, with
  the new box, changes nothing. Coordinates are exact reals here, so the centre is the
  origin exactly: the tolerance of the specification is what rounding adds to this.
\<close>

theorem recenter_then_measure_origin:
  assumes "position g \<noteq> []"
    and "recenter e (setFromPoints (position g)) g = Inr g'"
  shows "getCenter (setFromPoints (position g')) = (0, 0, 0) \<and>
         recenter e (setFromPoints (position g')) g' = Inr g'"
proof -
  from assms(2) have g': "g' = recentered e g"
    and ok: "\<not> (has_center e \<and> raises e Center)" "\<not> (\<not> has_center e \<and> raises e GetCenter)"
    by (auto simp: recenter_eq split: if_splits)
  have c: "getCenter (setFromPoints (position g')) = (0, 0, 0)"
    unfolding g' recentered_position by (rule center_after_shift [OF assms(1)])
  have "recentered e g' = g'"
    unfolding g' by (rule recentered_twice)
  with ok c show ?thesis by (simp add: recenter_eq)
qed

theorem recenter_then_measure_origin_witness:
  "position segment \<noteq> [] \<and>
   recenter no_center (setFromPoints (position segment)) segment =
     Inr (segment\<lparr>position := [(- 2, 0, 0), (2, 0, 0)]\<rparr>) \<and>
   getCenter (setFromPoints [(- 2, 0, 0), (2, 0, 0)]) = (0, 0, 0)"
proof -
  have p: "position segment \<noteq> []" by (simp add: segment_def)
  have r: "recenter no_center (setFromPoints (position segment)) segment =
     Inr (segment\<lparr>position := [(- 2, 0, 0), (2, 0, 0)]\<rparr>)"
    by (simp add: recenter_eq no_center_def recentered_segment)
  show ?thesis using p r recenter_then_measure_origin [OF p r] by simp
qed

subsection \<open>C6: the two recentering strategies\<close>

text \<open>
  C6. For every buffer, the loop of lines 119 to 126, run with the centre of the
  buffer's bounding box, yields the position array of the bulk centering operation.
  So the recentering step gives the same positions whether the geometry offers
  \<^verbatim>\<open>center\<close> or the loop runs instead (no call raising): the loop returns the buffer
  with these positions, the bulk operation returns its own result.
\<close>

theorem recenter_strategies_agree:
  "recenter_loop (getCenter (setFromPoints (position g))) 0 (position g) =
     position (center_bulk g) \<and>
   recenter \<lparr>has_center = False, raises = (\<lambda>c. False)\<rparr> (setFromPoints (position g)) g =
     Inr (g\<lparr>position := position (center_bulk g)\<rparr>) \<and>
   recenter \<lparr>has_center = True, raises = (\<lambda>c. False)\<rparr> (setFromPoints (position g)) g =
     Inr (center_bulk g)"
  by (simp add: recenter_eq recentered_def recenter_loop_map center_bulk_def
      center_positions_def)

subsection \<open>C7: what recentering touches\<close>

text \<open>
  C7 does not hold of the code. The comment of line 115 says that the position
  attribute is moved, and the loop of lines 119 to 126 writes positions only; but the
  call of line 117, taken whenever the geometry offers \<^verbatim>\<open>center\<close>, also rewrites the
  normal attribute. On \<open>long_normals\<close>, two vertices with normals of length 2, the bulk
  branch returns normals of length 1, while the loop branch returns the normals as
  loaded.
\<close>

theorem bulk_center_rewrites_normals:
  "normal long_normals = Some [(0, 0, 2), (0, 0, 2)] \<and>
   recenter no_raise (setFromPoints (position long_normals)) long_normals =
     Inr (long_normals\<lparr>position := [(- 2, 0, 0), (2, 0, 0)],
            normal := Some [(0, 0, 1), (0, 0, 1)]\<rparr>) \<and>
   recenter no_center (setFromPoints (position long_normals)) long_normals =
     Inr (long_normals\<lparr>position := [(- 2, 0, 0), (2, 0, 0)]\<rparr>)"
proof -
  have n: "normal long_normals = Some [(0, 0, 2), (0, 0, 2)]"
    by (simp add: long_normals_def)
  have p: "center_positions (position long_normals) = [(- 2, 0, 0), (2, 0, 0)]"
    by (simp add: long_normals_def segment_centered)
  show ?thesis
    by (simp add: n recenter_eq no_raise_def no_center_def recentered_def
        center_bulk_long_normals p)
qed

text \<open>
  What the recentering step does to the other attributes, for every buffer: the
  colours and the index are those of the buffer it was given; the normals are
  unchanged by the loop and normalized by the bulk operation.
\<close>

lemma recenter_other_attributes:
  assumes "recenter e box g = Inr g'"
  shows "color g' = color g \<and> index g' = index g \<and>
         normal g' = (if has_center e then map_option (map normalize) (normal g) else normal g)"
  using assms
  by (auto simp: recenter_def center_def box_getCenter_def center_bulk_def split: if_splits)

subsection \<open>C8: a colour attribute of the wrong length\<close>

text \<open>
  C8, as the code has it. For every buffer, well-formed or not, and whatever the engine
  raises, the component renders an element after the effect, and the \<^verbatim>\<open>vertexColors\<close>
  flag of that element is true exactly when the colour attribute is present. The length
  of the colour attribute is never compared with the number of vertices: the scale and
  the positions the effect leaves are the same for any colour attribute \<open>c\<close> put in
  its place.
\<close>

theorem vertex_colors_by_presence:
  assumes "geometry st = Some g"
  shows "render s (effect e st) \<noteq> Null \<and>
         vertexColors (render s (effect e st)) = Some (color g \<noteq> None) \<and>
         autoScale (effect e (st\<lparr>geometry := Some (g\<lparr>color := c\<rparr>)\<rparr>)) =
           autoScale (effect e st) \<and>
         map_option position (geometry (effect e (st\<lparr>geometry := Some (g\<lparr>color := c\<rparr>)\<rparr>))) =
           map_option position (geometry (effect e st))"
proof -
  have c: "autoScale (effect e (st\<lparr>geometry := Some (g\<lparr>color := c\<rparr>)\<rparr>)) =
             autoScale (effect e st) \<and>
           map_option position (geometry (effect e (st\<lparr>geometry := Some (g\<lparr>color := c\<rparr>)\<rparr>))) =
             map_option position (geometry (effect e st))"
  proof -
    have g2: "geometry (st\<lparr>geometry := Some (g\<lparr>color := c\<rparr>)\<rparr>) = Some (g\<lparr>color := c\<rparr>)"
      by simp
    show ?thesis
      using try_block_without_color [where e = e and a = "autoScale st" and g = g and c = c]
      by (simp add: effect_autoScale [OF g2] effect_autoScale [OF assms]
          effect_geometry [OF g2] effect_geometry [OF assms])
  qed
  have g': "geometry (effect e st) = Some (snd (fst (try_block e (autoScale st) g)))"
    using assms by (rule effect_geometry)
  have "render s (effect e st) \<noteq> Null"
    using g' by (rule render_not_Null)
  moreover have "vertexColors (render s (effect e st)) = Some (color g \<noteq> None)"
    by (simp add: render_def g' Let_def hasVertexColors_def try_block_color)
  ultimately show ?thesis using c by simp
qed

theorem vertex_colors_by_presence_witness:
  "geometry (initial_state (Some short_colors)) = Some short_colors \<and>
   vertexColors (render (Fin 1) (effect no_center (initial_state (Some short_colors)))) = Some True"
  using vertex_colors_by_presence
    [where st = "initial_state (Some short_colors)" and g = short_colors and s = "Fin 1"
      and e = no_center and c = None]
  by (simp add: initial_state_def short_colors_def)

text \<open>
  C8 as stated fails on \<open>short_colors\<close>, which has two vertices and one colour: the flag
  is true, and the buffer is not treated as degenerate either, since it is scaled by
  \<open>1 / 2\<close> and recentered like any other.
\<close>

theorem short_colors_reported:
  "length (the (color short_colors)) \<noteq> length (position short_colors) \<and>
   vertexColors (render (Fin 1) (effect no_raise (initial_state (Some short_colors)))) = Some True \<and>
   autoScale (effect no_raise (initial_state (Some short_colors))) = Fin (1 / 2) \<and>
   geometry (effect no_raise (initial_state (Some short_colors))) =
     Some (short_colors\<lparr>position := [(- 2, 0, 0), (2, 0, 0)]\<rparr>)"
proof -
  have n: "index short_colors = None" "color short_colors = Some [(1, 0, 0)]"
    "position short_colors = [(0, 0, 0), (4, 0, 0)]"
    by (simp_all add: short_colors_def)
  have t: "try_block no_raise (Fin 1) short_colors =
     ((Fin (1 / 2), short_colors\<lparr>position := [(- 2, 0, 0), (2, 0, 0)]\<rparr>), None)"
    by (simp add: try_block_eq no_raise_def n fitted_short_colors recentered_short_colors)
  show ?thesis
    by (simp add: initial_state_def effect_eq t render_def hasVertexColors_def Let_def n)
qed

subsection \<open>C9: the scale handed to the renderer\<close>

text \<open>
  C9. For every state that holds a geometry and every user scale \<open>s\<close>, the element that
  is rendered, points when there is no index and a mesh when there is one, carries the
  scale \<open>autoScale * s\<close> on each of its three axes. After the effect, when the bounding
  box and its size were computed, \<open>autoScale\<close> is the auto-fit value of the loaded
  buffer, so the scale is that value times \<open>s\<close>.
\<close>

theorem rendered_scale_is_product:
  assumes "geometry st = Some g"
  shows "element_scale (render s st) =
           Some (js_mul (autoScale st) s, js_mul (autoScale st) s, js_mul (autoScale st) s) \<and>
         (index g = None \<longrightarrow> renderMode (render s st) = Some POINT_CLOUD) \<and>
         (index g \<noteq> None \<longrightarrow> renderMode (render s st) = Some SURFACE) \<and>
         (\<not> raises e ComputeBoundingBox \<and> \<not> raises e GetSize \<longrightarrow>
            element_scale (render s (effect e st)) =
              Some (js_mul (fitted g) s,
                    js_mul (fitted g) s,
                    js_mul (fitted g) s))"
proof -
  have g': "geometry (effect e st) = Some (snd (fst (try_block e (autoScale st) g)))"
    using assms by (rule effect_geometry)
  have a: "\<not> raises e ComputeBoundingBox \<and> \<not> raises e GetSize \<Longrightarrow>
           autoScale (effect e st) = fitted g"
    by (simp add: effect_autoScale [OF assms] try_block_eq)
  have "\<not> raises e ComputeBoundingBox \<and> \<not> raises e GetSize \<longrightarrow>
            element_scale (render s (effect e st)) =
              Some (js_mul (fitted g) s,
                    js_mul (fitted g) s,
                    js_mul (fitted g) s)"
    using a by (simp add: render_def g' Let_def)
  then show ?thesis
    using assms by (simp add: render_def Let_def)
qed

theorem rendered_scale_is_product_witness:
  "geometry (initial_state (Some triangle)) = Some triangle \<and>
   \<not> raises no_raise ComputeBoundingBox \<and> \<not> raises no_raise GetSize \<and>
   element_scale (render (Fin 3) (effect no_raise (initial_state (Some triangle)))) =
     Some (Fin 6, Fin 6, Fin 6) \<and>
   element_scale (render (Fin 3) (initial_state (Some triangle))) = Some (Fin 3, Fin 3, Fin 3) \<and>
   renderMode (render (Fin 3) (initial_state (Some triangle))) = Some SURFACE \<and>
   element_scale (render (Fin 3) (effect no_raise (initial_state (Some short_colors)))) =
     Some (Fin (3 / 2), Fin (3 / 2), Fin (3 / 2)) \<and>
   renderMode (render (Fin 3) (initial_state (Some short_colors))) = Some POINT_CLOUD"
proof -
  have i: "index triangle \<noteq> None" "index short_colors = None"
    by (simp_all add: triangle_def short_colors_def)
  show ?thesis
    using i rendered_scale_is_product [of "initial_state (Some triangle)" triangle "Fin 3" no_raise]
      rendered_scale_is_product
        [of "initial_state (Some short_colors)" short_colors "Fin 3" no_raise]
    by (simp add: initial_state_def no_raise_def fitted_triangle fitted_short_colors
        js_number_def overflow_bound_def)
qed

subsection \<open>C10: the point size\<close>

text \<open>
  C10. For a geometry without index, the point size of the rendered points is
  \<open>0.02 * s\<close> for the user scale \<open>s\<close>, whatever the value of \<open>autoScale\<close>; in particular
  it is \<open>0.02 * s\<close> after the effect, whatever scale the effect derived.
\<close>

theorem point_size_ignores_auto_fit:
  assumes "geometry st = Some g" and "index g = None"
  shows "point_size (render s (st\<lparr>autoScale := a\<rparr>)) = Some (js_mul (Fin 0.02) s) \<and>
         point_size (render s (effect e st)) = Some (js_mul (Fin 0.02) s)"
proof -
  have g': "geometry (effect e st) = Some (snd (fst (try_block e (autoScale st) g)))"
    using assms(1) by (rule effect_geometry)
  have "point_size (render s (effect e st)) = Some (js_mul (Fin 0.02) s)"
    using assms(2) by (simp add: render_def g' Let_def try_block_index)
  then show ?thesis
    using assms by (simp add: render_def Let_def)
qed

theorem point_size_ignores_auto_fit_witness:
  "geometry (initial_state (Some short_colors)) = Some short_colors \<and>
   index short_colors = None \<and>
   point_size (render (Fin 3) ((initial_state (Some short_colors))\<lparr>autoScale := Fin 7\<rparr>)) =
     Some (Fin 0.06) \<and>
   point_size (render (Fin 3) (effect no_raise (initial_state (Some short_colors)))) =
     Some (Fin 0.06)"
  using point_size_ignores_auto_fit
    [of "initial_state (Some short_colors)" short_colors "Fin 3" "Fin 7" no_raise]
  by (simp add: initial_state_def short_colors_def js_number_def overflow_bound_def)

end
